theory Spec2Isabelle
  imports Main
begin

section \<open>Batches and the retry buffer\<close>

text \<open>
  A batch (\<^verbatim>\<open>client.BatchPoints\<close> as the scheduler uses it): the points added so far,
  the database name and the time precision it was created with. Points are opaque
  (\<open>'p\<close>): only their order and number matter to the scheduler.
\<close>

record 'p BatchPoints =
  points :: "'p list"
  database :: string
  precision :: string

text \<open>\<^verbatim>\<open>client.NewBatchPoints(client.BatchPointsConfig{Precision: .., Database: ..})\<close>:
  a batch without points. The scheduler discards the error result; with precision
  \<^verbatim>\<open>"s"\<close> the constructor has none.\<close>

definition NewBatchPoints :: "string \<Rightarrow> string \<Rightarrow> 'p BatchPoints" where
  "NewBatchPoints prec dbname = \<lparr>points = [], database = dbname, precision = prec\<rparr>"

text \<open>\<^verbatim>\<open>bp.AddPoint(p)\<close> and \<^verbatim>\<open>bp.AddPoints(ps)\<close> append to the batch.\<close>

definition AddPoint :: "'p BatchPoints \<Rightarrow> 'p \<Rightarrow> 'p BatchPoints" where
  "AddPoint bp p = bp\<lparr>points := points bp @ [p]\<rparr>"

definition AddPoints :: "'p BatchPoints \<Rightarrow> 'p list \<Rightarrow> 'p BatchPoints" where
  "AddPoints bp ps = bp\<lparr>points := points bp @ ps\<rparr>"

text \<open>
  Modelled from the spec: the type \<^verbatim>\<open>Buffer\<close> with \<^verbatim>\<open>NewBuffer\<close>, \<^verbatim>\<open>Add\<close> and
  \<^verbatim>\<open>Elements\<close> is declared outside the source file at hand, which only calls them
  (\<^verbatim>\<open>NewBuffer(config.bufferSize)\<close>, \<^verbatim>\<open>cw.buf.Add(bp)\<close>, \<^verbatim>\<open>cw.buf.Elements()\<close>,
  \<^verbatim>\<open>cw.buf.Add(bpPending...)\<close>). The specification describes the retry buffer as a
  bounded ordered collection of batches whose capacity is fixed at construction. The
  capacity is a number of batches, hence a \<open>nat\<close>.
\<close>

record 'p Buffer =
  data :: "'p BatchPoints list"
  capacity :: nat

text \<open>Modelled from the spec: \<^verbatim>\<open>NewBuffer\<close> creates the buffer once, empty, with the
  configured capacity.\<close>

definition NewBuffer :: "nat \<Rightarrow> 'p Buffer" where
  "NewBuffer n = \<lparr>data = [], capacity = n\<rparr>"

text \<open>Modelled from the spec: \<^verbatim>\<open>Add(batch...)\<close> appends one or more batches and
  enforces the capacity with the drop-oldest policy: when the insertion would exceed the
  capacity, the oldest batches are evicted first.\<close>

definition Add :: "'p Buffer \<Rightarrow> 'p BatchPoints list \<Rightarrow> 'p Buffer" where
  "Add b ps =
     (let d = data b @ ps
      in b\<lparr>data := (if capacity b < length d then drop (length d - capacity b) d else d)\<rparr>)"

text \<open>Modelled from the spec: \<^verbatim>\<open>Elements()\<close> returns the current ordered collection of
  buffered batches and does not clear it: reading and clearing are separate, and
  clearing is left to the caller. The result is the returned batches and the buffer,
  which is as it was.\<close>

definition Elements :: "'p Buffer \<Rightarrow> 'p BatchPoints list \<times> 'p Buffer" where
  "Elements b = (data b, b)"

text \<open>The capacity invariant of the retry buffer.\<close>

definition within_capacity :: "'p Buffer \<Rightarrow> bool" where
  "within_capacity b = (length (data b) \<le> capacity b)"

section \<open>The export scheduler\<close>

text \<open>
  The source holds two revisions of \<^verbatim>\<open>influxdb.go\<close>. Their \<^verbatim>\<open>updateAndSendData\<close>
  differ only in the alert checker that the first one passes on to the point
  converters; the first \<^verbatim>\<open>Register\<close> also starts the web-socket server and creates the
  checker. The first revision is the one modelled; the converters stand for both.
\<close>

subsection \<open>Data\<close>

text \<open>
  A snapshot of the metrics source, as \<^verbatim>\<open>cw.collection.GetSnapshot()\<close> returns it. The
  scheduler looks at the number of counters and gauges, hands the three collections to
  the point converters, and reads \<^verbatim>\<open>Time\<close>, the nanoseconds since the epoch (an
  \<^verbatim>\<open>int64\<close> on which no arithmetic is done here). The sample types are opaque.
\<close>

record ('c, 'g, 'h) Snapshot =
  Counters :: "'c list"
  Gauges :: "'g list"
  Histograms :: "'h list"
  Time :: int

text \<open>
  What the scheduler calls but does not define: \<^verbatim>\<open>time.Unix\<close>, the three point
  converters \<^verbatim>\<open>counter.Points\<close>, \<^verbatim>\<open>gauge.Points\<close>, \<^verbatim>\<open>histogram.Points\<close> (with the
  logger and the alert checker of the loop already passed to them), and the store
  client's \<^verbatim>\<open>Write\<close>, which answers with an error message or none and moves the
  client (and the store behind it) to a new state.
\<close>

record ('c, 'g, 'h, 'p, 't, 'k) collaborators =
  time_Unix :: "int \<Rightarrow> int \<Rightarrow> 't"
  counter_Points :: "string \<Rightarrow> 't \<Rightarrow> 'c list \<Rightarrow> 'p list"
  gauge_Points :: "string \<Rightarrow> 't \<Rightarrow> 'g list \<Rightarrow> 'p list"
  histogram_Points :: "string \<Rightarrow> 't \<Rightarrow> 'h list \<Rightarrow> 'p list"
  client_Write :: "'k \<Rightarrow> 'p BatchPoints \<Rightarrow> string option \<times> 'k"

text \<open>A line of the log: the level of the logger method called, and its arguments.\<close>

datatype level = DEBUG | INFO | ERROR

datatype arg = Str string | Num int

type_synonym log_line = "level \<times> arg list"

text \<open>
  The state the loop works on. \<open>client\<close>, \<open>config_db\<close> (the field \<^verbatim>\<open>config.db\<close>) and
  \<open>buf\<close> are the fields of \<^verbatim>\<open>clientWrapper\<close> that the loop uses. The other three
  record what the loop has done to the outside world so far: \<open>logged\<close>, the lines
  written to \<^verbatim>\<open>cw.logger\<close>; \<open>writes\<close>, the batches handed to \<^verbatim>\<open>cw.client.Write\<close>, in
  order; \<open>hostname_lookups\<close>, the number of calls of \<^verbatim>\<open>os.Hostname\<close>.
\<close>

record ('p, 'k) clientWrapper =
  client :: 'k
  config_db :: string
  buf :: "'p Buffer"
  logged :: "log_line list"
  writes :: "'p BatchPoints list"
  hostname_lookups :: nat

definition log :: "level \<Rightarrow> arg list \<Rightarrow> ('p, 'k) clientWrapper \<Rightarrow> ('p, 'k) clientWrapper" where
  "log l as cw = cw\<lparr>logged := logged cw @ [(l, as)]\<rparr>"

text \<open>\<^verbatim>\<open>cw.client.Write(bp)\<close>: the client answers, and the call is recorded.\<close>

definition Write ::
  "('c, 'g, 'h, 'p, 't, 'k) collaborators \<Rightarrow> 'p BatchPoints \<Rightarrow> ('p, 'k) clientWrapper \<Rightarrow>
   string option \<times> ('p, 'k) clientWrapper" where
  "Write env bp cw =
     (let (err, k) = client_Write env (client cw) bp
      in (err, cw\<lparr>client := k, writes := writes cw @ [bp]\<rparr>))"

subsection \<open>One cycle\<close>

text \<open>\<^verbatim>\<open>shouldSend := len(snapshot.Counters) > 0 || len(snapshot.Gauges) > 0\<close>\<close>

definition shouldSend :: "('c, 'g, 'h) Snapshot \<Rightarrow> bool" where
  "shouldSend snapshot = (0 < length (Counters snapshot) \<or> 0 < length (Gauges snapshot))"

text \<open>
  The batch of a cycle: a new batch with precision \<^verbatim>\<open>"s"\<close> and the configured
  database, then three \<^verbatim>\<open>for _, p := range ... { bp.AddPoint(p) }\<close> loops over what the
  converters return for \<^verbatim>\<open>now := time.Unix(0, snapshot.Time)\<close>.
\<close>

definition build_batch ::
  "('c, 'g, 'h, 'p, 't, 'k) collaborators \<Rightarrow> string \<Rightarrow> string \<Rightarrow> ('c, 'g, 'h) Snapshot \<Rightarrow>
   'p BatchPoints" where
  "build_batch env hostname dbname snapshot =
     (let bp = NewBatchPoints ''s'' dbname;
          now = time_Unix env 0 (Time snapshot);
          bp = foldl AddPoint bp (counter_Points env hostname now (Counters snapshot));
          bp = foldl AddPoint bp (gauge_Points env hostname now (Gauges snapshot));
          bp = foldl AddPoint bp (histogram_Points env hostname now (Histograms snapshot))
      in bp)"

text \<open>\<^verbatim>\<open>for _, failedBP := range bpPending { pts = append(pts, failedBP.Points()...) }\<close>,
  starting from the nil slice.\<close>

definition collect_points :: "'p BatchPoints list \<Rightarrow> 'p list" where
  "collect_points bpPending = foldl (\<lambda>pts failedBP. pts @ points failedBP) [] bpPending"

text \<open>The retry batch: a new batch with the configured database and precision
  \<^verbatim>\<open>"s"\<close>, then \<^verbatim>\<open>retryBatch.AddPoints(pts)\<close>.\<close>

definition build_retryBatch :: "string \<Rightarrow> 'p BatchPoints list \<Rightarrow> 'p BatchPoints" where
  "build_retryBatch dbname bpPending =
     AddPoints (NewBatchPoints ''s'' dbname) (collect_points bpPending)"

text \<open>
  The body of the \<^verbatim>\<open>for\<close> loop after the \<^verbatim>\<open>select\<close>, for the snapshot that the metrics
  source returns in this cycle. Each \<^verbatim>\<open>continue\<close> and the end of the body are the
  returned state.
\<close>

definition cycle ::
  "('c, 'g, 'h, 'p, 't, 'k) collaborators \<Rightarrow> string \<Rightarrow> ('c, 'g, 'h) Snapshot \<Rightarrow>
   ('p, 'k) clientWrapper \<Rightarrow> ('p, 'k) clientWrapper" where
  "cycle env hostname snapshot cw0 =
     (let cw = log DEBUG [Str ''preparing get metrics points''] cw0
      in if \<not> shouldSend snapshot
         then log DEBUG [Str ''no metrics data to send to influx server''] cw
         else
           let bp = build_batch env hostname (config_db cw) snapshot;
               (err, cw) = Write env bp cw
           in case err of
                Some e \<Rightarrow>
                  (let cw = log ERROR [Str ''writing to influx server error:'', Str e] cw
                   in cw\<lparr>buf := Add (buf cw) [bp]\<rparr>)
              | None \<Rightarrow>
                  (let cw = log INFO [Num (int (length (points bp))),
                                      Str ''datapoints sent to Influx''] cw;
                       (bpPending, b) = Elements (buf cw);
                       cw = cw\<lparr>buf := b\<rparr>;
                       retryBatch = build_retryBatch (config_db cw) bpPending;
                       (err, cw) = Write env retryBatch cw
                   in case err of
                        Some e \<Rightarrow>
                          (let cw = log ERROR [Str ''writing to influx:'', Str e] cw
                           in cw\<lparr>buf := Add (buf cw) bpPending\<rparr>)
                      | None \<Rightarrow> cw))"

subsection \<open>The loop\<close>

text \<open>
  \<^verbatim>\<open>select { case <-ticker: case <-ctx.Done(): return }\<close>. A Go \<^verbatim>\<open>select\<close> without a
  default case blocks while no case can proceed, and picks one of the cases that can
  proceed by a pseudo-random choice otherwise: \<open>pick\<close> is that choice.
\<close>

datatype chosen = CaseTicker | CaseDone

definition select :: "bool \<Rightarrow> bool \<Rightarrow> nat \<Rightarrow> chosen option" where
  "select ticker_can done_can pick =
     (let can = (if ticker_can then [CaseTicker] else []) @ (if done_can then [CaseDone] else [])
      in if can = [] then None else Some (can ! (pick mod length can)))"

text \<open>
  The loop is at its \<^verbatim>\<open>select\<close> once per element of a list that describes its
  surroundings at that moment: whether a tick is pending, whether the context is
  cancelled, the choice of the runtime, and the snapshot the metrics source returns if
  the cycle runs.
\<close>

record ('c, 'g, 'h) moment =
  tick_pending :: bool
  cancelled :: bool
  runtime_pick :: nat
  GetSnapshot :: "('c, 'g, 'h) Snapshot"

text \<open>The loop has returned, or it is still at its \<^verbatim>\<open>select\<close> when the list ends.\<close>

datatype outcome = Returned | Waiting

fun loop ::
  "('c, 'g, 'h, 'p, 't, 'k) collaborators \<Rightarrow> string \<Rightarrow> ('p, 'k) clientWrapper \<Rightarrow>
   ('c, 'g, 'h) moment list \<Rightarrow> ('p, 'k) clientWrapper \<times> outcome" where
  "loop env hostname cw [] = (cw, Waiting)"
| "loop env hostname cw (m # ms) =
     (case select (tick_pending m) (cancelled m) (runtime_pick m) of
        None \<Rightarrow> loop env hostname cw ms
      | Some CaseDone \<Rightarrow> (cw, Returned)
      | Some CaseTicker \<Rightarrow> loop env hostname (cycle env hostname (GetSnapshot m) cw) ms)"

text \<open>
  \<^verbatim>\<open>updateAndSendData\<close>: \<^verbatim>\<open>hostname, err := os.Hostname()\<close>, whose result is the pair
  \<open>os_Hostname\<close>, an error line if \<^verbatim>\<open>err != nil\<close>, then the loop.
\<close>

definition updateAndSendData ::
  "('c, 'g, 'h, 'p, 't, 'k) collaborators \<Rightarrow> string \<times> string option \<Rightarrow> ('p, 'k) clientWrapper \<Rightarrow>
   ('c, 'g, 'h) moment list \<Rightarrow> ('p, 'k) clientWrapper \<times> outcome" where
  "updateAndSendData env os_Hostname cw0 ms =
     (let (hostname, err) = os_Hostname;
          cw = cw0\<lparr>hostname_lookups := Suc (hostname_lookups cw0)\<rparr>;
          cw = (case err of
                  Some e \<Rightarrow> log ERROR [Str ''influx client get hostname err:'', Str e] cw
                | None \<Rightarrow> cw)
      in loop env hostname cw ms)"

section \<open>Registration\<close>

text \<open>
  The configuration that \<^verbatim>\<open>Register\<close> reads. The type \<^verbatim>\<open>influxdbConfig\<close> is declared
  outside the source file at hand; these are the fields that \<^verbatim>\<open>Register\<close> and the loop
  use. \<open>timeout\<close> and \<open>ttl\<close> are durations in nanoseconds; \<open>bufferSize\<close> is the capacity
  handed to \<^verbatim>\<open>NewBuffer\<close>.
\<close>

record influxdbConfig =
  address :: string
  username :: string
  password :: string
  timeout :: int
  ttl :: int
  db :: string
  bufferSize :: nat
  dataServerEnable :: bool
  dataServerPort :: string

text \<open>
  What \<^verbatim>\<open>Register\<close> is given and what it calls: \<open>getConfig\<close> is the outcome of
  \<^verbatim>\<open>getConfig(cfg.ExtraConfig).(influxdbConfig)\<close>, \<open>None\<close> when the type assertion fails;
  \<open>configErr\<close> is the package's error value of that name; \<open>NewHTTPClient\<close> answers with
  an error or a client; \<open>Ping\<close> answers with a duration, a message and an error or none;
  \<open>NewChecker\<close> is the error of \<^verbatim>\<open>alert.NewChecker(cfg)\<close>, if any.
\<close>

record 'k startup =
  getConfig :: "influxdbConfig option"
  configErr :: string
  NewHTTPClient :: "string \<Rightarrow> string \<Rightarrow> string \<Rightarrow> int \<Rightarrow> string + 'k"
  Ping :: "'k \<Rightarrow> int \<Rightarrow> int \<times> string \<times> string option"
  NewChecker :: "string option"

text \<open>\<^verbatim>\<open>pingTimeOut = time.Second\<close>\<close>

definition pingTimeOut :: int where
  "pingTimeOut = 1000000000"

text \<open>
  What \<^verbatim>\<open>Register\<close> sets going, in order: the ticker, the data servers, and the goroutine
  that runs \<^verbatim>\<open>updateAndSendData\<close> on the new \<^verbatim>\<open>clientWrapper\<close>.
\<close>

datatype ('p, 'k) started =
    NewTicker int
  | RegisterWSTimeControl
  | runEndpoint string
  | runWebSocketServer
  | go_updateAndSendData "('p, 'k) clientWrapper"

text \<open>How the call of \<^verbatim>\<open>Register\<close> ends: it returns \<^verbatim>\<open>nil\<close>, it returns an error, or it
  panics.\<close>

datatype returned = ReturnsNil | ReturnsError string | Panics

record ('p, 'k) registration =
  result :: returned
  reg_logged :: "log_line list"
  pings :: nat
  started :: "('p, 'k) started list"

text \<open>
  \<^verbatim>\<open>Register\<close>. \<^verbatim>\<open>time.NewTicker(d)\<close> panics unless \<open>d\<close> is greater than zero
  (\<^verbatim>\<open>non-positive interval for NewTicker\<close>); \<^verbatim>\<open>Register\<close> calls it after the ping and
  before it creates the \<^verbatim>\<open>clientWrapper\<close>.
\<close>

definition Register :: "'k startup \<Rightarrow> ('p, 'k) registration" where
  "Register st =
     (case getConfig st of
        None \<Rightarrow>
          \<lparr>result = ReturnsError (configErr st),
           reg_logged = [(DEBUG, [Str ''no config for the influxDB client. Aborting''])],
           pings = 0, started = []\<rparr>
      | Some config \<Rightarrow>
          (case NewHTTPClient st (address config) (username config) (password config)
                  (timeout config) of
             Inl err \<Rightarrow>
               \<lparr>result = ReturnsError err,
                reg_logged = [(DEBUG, [Str ''create influx client err''])],
                pings = 0, started = []\<rparr>
           | Inr influxClient \<Rightarrow>
               (case Ping st influxClient pingTimeOut of
                  (duration, msg, Some err) \<Rightarrow>
                    \<lparr>result = ReturnsError err,
                     reg_logged = [(ERROR, [Str ''unable to ping influx server,'', Str err])],
                     pings = 1, started = []\<rparr>
                | (duration, msg, None) \<Rightarrow>
                    (let l = [(DEBUG, [Str ''ping success to influx server with duration:'',
                                       Num duration, Str '' and message:'', Str msg])]
                     in if ttl config \<le> 0
                        then \<lparr>result = Panics, reg_logged = l, pings = 1, started = []\<rparr>
                        else
                          let cw = \<lparr>client = influxClient, config_db = db config,
                                    buf = NewBuffer (bufferSize config),
                                    logged = [], writes = [], hostname_lookups = 0\<rparr>
                          in \<lparr>result = ReturnsNil,
                              reg_logged = l @
                                (case NewChecker st of
                                   Some err \<Rightarrow> [(ERROR, [Str err])]
                                 | None \<Rightarrow> []) @
                                [(DEBUG, [Str ''influx client run success''])],
                              pings = 1,
                              started = [NewTicker (ttl config)] @
                                (if dataServerEnable config
                                 then [RegisterWSTimeControl,
                                       runEndpoint (dataServerPort config),
                                       runWebSocketServer]
                                 else []) @
                                [go_updateAndSendData cw]\<rparr>))))"

text \<open>The startup failures: no configuration, no client, or a failed ping.\<close>

definition startup_fails :: "'k startup \<Rightarrow> bool" where
  "startup_fails st =
     (case getConfig st of
        None \<Rightarrow> True
      | Some config \<Rightarrow>
          (case NewHTTPClient st (address config) (username config) (password config)
                  (timeout config) of
             Inl err \<Rightarrow> True
           | Inr influxClient \<Rightarrow> snd (snd (Ping st influxClient pingTimeOut)) \<noteq> None))"

text \<open>The configured tick interval is one that \<^verbatim>\<open>time.NewTicker\<close> accepts.\<close>

definition ticker_ok :: "'k startup \<Rightarrow> bool" where
  "ticker_ok st = (case getConfig st of None \<Rightarrow> False | Some config \<Rightarrow> 0 < ttl config)"

text \<open>The loops that were started, with the state each one starts from.\<close>

fun loops_of :: "('p, 'k) started list \<Rightarrow> ('p, 'k) clientWrapper list" where
  "loops_of [] = []"
| "loops_of (go_updateAndSendData cw # xs) = cw # loops_of xs"
| "loops_of (x # xs) = loops_of xs"

section \<open>A concrete scheduler\<close>

text \<open>
  An instance to run the definitions on: a point is the triple of the hostname, the time
  and the sample it was made from, time.Unix keeps the nanoseconds, and the store client
  answers its successive \<^verbatim>\<open>Write\<close> calls from a script (and accepts every write once the
  script is used up).
\<close>

type_synonym demo_point = "string \<times> int \<times> nat"

definition demo_env :: "(nat, nat, nat, demo_point, int, string option list) collaborators" where
  "demo_env =
     \<lparr>time_Unix = (\<lambda>sec nsec. nsec),
      counter_Points = (\<lambda>hostname now samples. map (\<lambda>c. (hostname, now, c)) samples),
      gauge_Points = (\<lambda>hostname now samples. map (\<lambda>g. (hostname, now, g)) samples),
      histogram_Points = (\<lambda>hostname now samples. map (\<lambda>h. (hostname, now, h)) samples),
      client_Write = (\<lambda>k bp. case k of [] \<Rightarrow> (None, []) | r # rs \<Rightarrow> (r, rs))\<rparr>"

definition demo_cw :: "nat \<Rightarrow> demo_point BatchPoints list \<Rightarrow> string option list \<Rightarrow>
    (demo_point, string option list) clientWrapper" where
  "demo_cw n pending script =
     \<lparr>client = script, config_db = ''melody'', buf = Add (NewBuffer n) pending,
      logged = [], writes = [], hostname_lookups = 0\<rparr>"

definition demo_snapshot :: "(nat, nat, nat) Snapshot" where
  "demo_snapshot = \<lparr>Counters = [5], Gauges = [], Histograms = [7, 8], Time = 1000\<rparr>"

definition demo_batch :: "nat \<Rightarrow> demo_point BatchPoints" where
  "demo_batch v = \<lparr>points = [(''h'', 1, v), (''h'', 1, v + 1)], database = ''melody'', precision = ''s''\<rparr>"

definition demo_moment :: "bool \<Rightarrow> bool \<Rightarrow> nat \<Rightarrow> (nat, nat, nat) moment" where
  "demo_moment t c r = \<lparr>tick_pending = t, cancelled = c, runtime_pick = r, GetSnapshot = demo_snapshot\<rparr>"

definition demo_config :: "int \<Rightarrow> influxdbConfig" where
  "demo_config t =
     \<lparr>address = ''http://127.0.0.1:8086'', username = ''melody'', password = ''secret'',
      timeout = 0, ttl = t, db = ''melody'', bufferSize = 2, dataServerEnable = True,
      dataServerPort = '':8001''\<rparr>"

definition demo_startup ::
  "influxdbConfig option \<Rightarrow> string + string option list \<Rightarrow> string option \<Rightarrow>
   string option list startup" where
  "demo_startup c cl p =
     \<lparr>getConfig = c, configErr = ''unable to load custom config'',
      NewHTTPClient = (\<lambda>addr user pass t. cl),
      Ping = (\<lambda>k t. (5, ''pong'', p)),
      NewChecker = Some ''no alert config''\<rparr>"

section \<open>The retry buffer keeps the newest batches\<close>

lemma capacity_Add: "capacity (Add b ps) = capacity b"
  by (simp add: Add_def Let_def)

lemma data_Add: "data (Add b ps) = drop (length (data b @ ps) - capacity b) (data b @ ps)"
  by (simp add: Add_def Let_def)

lemma within_capacity_Add: "within_capacity (Add b ps)"
  by (simp add: within_capacity_def data_Add capacity_Add)

lemma within_capacity_NewBuffer: "within_capacity (NewBuffer n)"
  by (simp add: within_capacity_def NewBuffer_def)

lemma drop_suffix_append:
  "drop (length (drop k xs @ ys) - n) (drop k xs @ ys) = drop (length (xs @ ys) - n) (xs @ ys)"
  if "k = length xs - n" for xs ys :: "'a list"
proof (cases "length xs \<le> n")
  case True
  with that show ?thesis by simp
next
  case False
  with that have k: "k \<le> length xs" "length xs - k = n" by simp_all
  from k have l: "length (xs @ ys) - n = length ys + k"
    by simp
  from k have r: "length (drop k xs @ ys) - n = length ys"
    by simp
  have "drop (length ys + k) (xs @ ys) = drop (length ys) (drop k (xs @ ys))"
    by (simp only: drop_drop)
  also have "drop k (xs @ ys) = drop k xs @ ys"
    using k by simp
  finally show ?thesis
    by (simp only: l r)
qed

lemma data_foldl_Add:
  "data (foldl Add b pss) =
     drop (length (data b @ concat pss) - capacity b) (data b @ concat pss)"
  if "within_capacity b"
  using that
proof (induction pss arbitrary: b)
  case Nil
  then show ?case by (simp add: within_capacity_def)
next
  case (Cons ps pss)
  have "data (foldl Add (Add b ps) pss) =
      drop (length (data (Add b ps) @ concat pss) - capacity b) (data (Add b ps) @ concat pss)"
    using Cons.IH [OF within_capacity_Add, of b ps] by (simp add: capacity_Add)
  also have "\<dots> = drop (length ((data b @ ps) @ concat pss) - capacity b)
      ((data b @ ps) @ concat pss)"
    unfolding data_Add by (rule drop_suffix_append) simp
  finally show ?case by simp
qed

text \<open>
  Claim C4. For every sequence of \<^verbatim>\<open>Add\<close> calls on a retry buffer constructed with
  capacity \<open>n\<close>, \<^verbatim>\<open>Elements()\<close> returns at most \<open>n\<close> batches, and they are the newest
  ones: the batches of all the calls in the order they were added, without the oldest
  ones that do not fit (drop-oldest).
\<close>

theorem Buffer_capacity_drop_oldest:
  "length (fst (Elements (foldl Add (NewBuffer n) pss))) \<le> n \<and>
   fst (Elements (foldl Add (NewBuffer n) pss)) =
     drop (length (concat pss) - n) (concat pss)"
proof -
  have "data (foldl Add (NewBuffer n) pss) = drop (length (concat pss) - n) (concat pss)"
    using data_foldl_Add [OF within_capacity_NewBuffer, of n pss]
    by (simp add: NewBuffer_def)
  then show ?thesis by (simp add: Elements_def)
qed

section \<open>What one cycle does\<close>

lemma foldl_AddPoint_eq: "foldl AddPoint bp ps = bp\<lparr>points := points bp @ ps\<rparr>"
  by (induction ps arbitrary: bp) (simp_all add: AddPoint_def)

lemma foldl_append_points: "foldl (\<lambda>pts failedBP. pts @ points failedBP) acc bs = acc @ concat (map points bs)"
  by (induction bs arbitrary: acc) simp_all

lemma collect_points_concat: "collect_points bs = concat (map points bs)"
  by (simp add: collect_points_def foldl_append_points)

lemma build_batch_eq:
  "build_batch env hostname dbname snapshot =
     \<lparr>points = counter_Points env hostname (time_Unix env 0 (Time snapshot)) (Counters snapshot) @
               gauge_Points env hostname (time_Unix env 0 (Time snapshot)) (Gauges snapshot) @
               histogram_Points env hostname (time_Unix env 0 (Time snapshot)) (Histograms snapshot),
      database = dbname, precision = ''s''\<rparr>"
  by (simp add: build_batch_def Let_def foldl_AddPoint_eq NewBatchPoints_def)

lemma build_retryBatch_eq:
  "build_retryBatch dbname bs =
     \<lparr>points = concat (map points bs), database = dbname, precision = ''s''\<rparr>"
  by (simp add: build_retryBatch_def AddPoints_def NewBatchPoints_def collect_points_concat)

lemma cycle_skip:
  "cycle env hostname snapshot cw =
     cw\<lparr>logged := logged cw @ [(DEBUG, [Str ''preparing get metrics points'']),
                               (DEBUG, [Str ''no metrics data to send to influx server''])]\<rparr>"
  if "\<not> shouldSend snapshot"
  using that by (simp add: cycle_def log_def)

lemma cycle_primary_failed:
  "cycle env hostname snapshot cw =
     cw\<lparr>client := k,
        writes := writes cw @ [bp],
        logged := logged cw @ [(DEBUG, [Str ''preparing get metrics points'']),
                               (ERROR, [Str ''writing to influx server error:'', Str e])],
        buf := Add (buf cw) [bp]\<rparr>"
  if "shouldSend snapshot" "bp = build_batch env hostname (config_db cw) snapshot"
     "client_Write env (client cw) bp = (Some e, k)"
  using that by (simp add: cycle_def log_def Write_def Let_def)

lemma cycle_retry_ok:
  "cycle env hostname snapshot cw =
     cw\<lparr>client := k',
        writes := writes cw @ [bp, rb],
        logged := logged cw @ [(DEBUG, [Str ''preparing get metrics points'']),
                               (INFO, [Num (int (length (points bp))), Str ''datapoints sent to Influx''])],
        buf := snd (Elements (buf cw))\<rparr>"
  if "shouldSend snapshot" "bp = build_batch env hostname (config_db cw) snapshot"
     "client_Write env (client cw) bp = (None, k)"
     "rb = build_retryBatch (config_db cw) (fst (Elements (buf cw)))"
     "client_Write env k rb = (None, k')"
  using that by (simp add: cycle_def log_def Write_def Let_def Elements_def)

lemma cycle_retry_failed:
  "cycle env hostname snapshot cw =
     cw\<lparr>client := k',
        writes := writes cw @ [bp, rb],
        logged := logged cw @ [(DEBUG, [Str ''preparing get metrics points'']),
                               (INFO, [Num (int (length (points bp))), Str ''datapoints sent to Influx'']),
                               (ERROR, [Str ''writing to influx:'', Str e])],
        buf := Add (snd (Elements (buf cw))) (fst (Elements (buf cw)))\<rparr>"
  if "shouldSend snapshot" "bp = build_batch env hostname (config_db cw) snapshot"
     "client_Write env (client cw) bp = (None, k)"
     "rb = build_retryBatch (config_db cw) (fst (Elements (buf cw)))"
     "client_Write env k rb = (Some e, k')"
  using that by (simp add: cycle_def log_def Write_def Let_def Elements_def)

lemma cycle_primary_ok:
  assumes "shouldSend snapshot"
    and "client_Write env (client cw) (build_batch env hostname (config_db cw) snapshot) = (None, k)"
  shows "\<exists>k' ls b.
     cycle env hostname snapshot cw =
       cw\<lparr>client := k',
          writes := writes cw @ [build_batch env hostname (config_db cw) snapshot,
                                build_retryBatch (config_db cw) (fst (Elements (buf cw)))],
          logged := logged cw @
            [(DEBUG, [Str ''preparing get metrics points'']),
             (INFO, [Num (int (length (points (build_batch env hostname (config_db cw) snapshot)))),
                     Str ''datapoints sent to Influx''])] @ ls,
          buf := b\<rparr>"
proof -
  define bp where "bp = build_batch env hostname (config_db cw) snapshot"
  define rb where "rb = build_retryBatch (config_db cw) (fst (Elements (buf cw)))"
  obtain err k' where w2: "client_Write env k rb = (err, k')"
    by (cases "client_Write env k rb")
  show ?thesis
  proof (cases err)
    case None
    have "cycle env hostname snapshot cw =
        cw\<lparr>client := k', writes := writes cw @ [bp, rb],
           logged := logged cw @ [(DEBUG, [Str ''preparing get metrics points'']),
             (INFO, [Num (int (length (points bp))), Str ''datapoints sent to Influx''])],
           buf := snd (Elements (buf cw))\<rparr>"
      using assms(1) bp_def assms(2) [folded bp_def] rb_def w2 [unfolded None]
      by (rule cycle_retry_ok)
    then have "cycle env hostname snapshot cw =
        cw\<lparr>client := k', writes := writes cw @ [bp, rb],
           logged := logged cw @ [(DEBUG, [Str ''preparing get metrics points'']),
             (INFO, [Num (int (length (points bp))), Str ''datapoints sent to Influx''])] @ [],
           buf := snd (Elements (buf cw))\<rparr>"
      by simp
    then show ?thesis
      unfolding bp_def rb_def by blast
  next
    case (Some e)
    have "cycle env hostname snapshot cw =
        cw\<lparr>client := k', writes := writes cw @ [bp, rb],
           logged := logged cw @ [(DEBUG, [Str ''preparing get metrics points'']),
             (INFO, [Num (int (length (points bp))), Str ''datapoints sent to Influx'']),
             (ERROR, [Str ''writing to influx:'', Str e])],
           buf := Add (snd (Elements (buf cw))) (fst (Elements (buf cw)))\<rparr>"
      using assms(1) bp_def assms(2) [folded bp_def] rb_def w2 [unfolded Some]
      by (rule cycle_retry_failed)
    then have "cycle env hostname snapshot cw =
        cw\<lparr>client := k', writes := writes cw @ [bp, rb],
           logged := logged cw @ [(DEBUG, [Str ''preparing get metrics points'']),
             (INFO, [Num (int (length (points bp))), Str ''datapoints sent to Influx''])] @
             [(ERROR, [Str ''writing to influx:'', Str e])],
           buf := Add (snd (Elements (buf cw))) (fst (Elements (buf cw)))\<rparr>"
      by simp
    then show ?thesis
      unfolding bp_def rb_def by blast
  qed
qed

lemma writes_cycle:
  "writes (cycle env hostname snapshot cw) =
     writes cw @
       (if shouldSend snapshot
        then (if fst (client_Write env (client cw)
                      (build_batch env hostname (config_db cw) snapshot)) = None
              then [build_batch env hostname (config_db cw) snapshot,
                    build_retryBatch (config_db cw) (fst (Elements (buf cw)))]
              else [build_batch env hostname (config_db cw) snapshot])
        else [])"
proof (cases "shouldSend snapshot")
  case False
  then show ?thesis by (simp add: cycle_skip)
next
  case True
  obtain err k where w1:
    "client_Write env (client cw) (build_batch env hostname (config_db cw) snapshot) = (err, k)"
    by (cases "client_Write env (client cw) (build_batch env hostname (config_db cw) snapshot)")
  show ?thesis
  proof (cases err)
    case None
    from cycle_primary_ok [OF True w1 [unfolded None]] show ?thesis
      using True w1 None by auto
  next
    case (Some e)
    from cycle_primary_failed [OF True refl w1 [unfolded Some]] show ?thesis
      using True w1 Some by simp
  qed
qed

text \<open>The capacity invariant holds throughout the loop.\<close>

lemma within_capacity_cycle:
  "within_capacity (buf (cycle env hostname snapshot cw))" if "within_capacity (buf cw)"
  using that
  by (simp add: cycle_def log_def Write_def Let_def within_capacity_Add Elements_def
      split: prod.splits option.splits)

lemma within_capacity_loop:
  "within_capacity (buf (fst (loop env hostname cw ms)))" if "within_capacity (buf cw)"
  using that
  by (induction ms arbitrary: cw)
    (simp_all add: within_capacity_cycle split: option.splits chosen.splits)




text \<open>
  Claim C2, amended. In a cycle whose primary write fails, whatever the capacity of
  the buffer, the error is logged, the failed batch is passed to \<^verbatim>\<open>Add\<close>, no second
  write is made, and the loop goes on with the next element of its input. When the
  capacity is at least 1, the failed batch is the newest batch that \<^verbatim>\<open>Elements()\<close>
  returns next; when it is 0, \<^verbatim>\<open>Elements()\<close> returns nothing.
\<close>

theorem failed_write_is_buffered:
  assumes "select (tick_pending m) (cancelled m) (runtime_pick m) = Some CaseTicker"
    and "shouldSend (GetSnapshot m)"
    and "client_Write env (client cw) (build_batch env hostname (config_db cw) (GetSnapshot m)) =
           (Some e, k)"
  shows "let bp = build_batch env hostname (config_db cw) (GetSnapshot m);
             cw' = cycle env hostname (GetSnapshot m) cw
         in logged cw' = logged cw @ [(DEBUG, [Str ''preparing get metrics points'']),
                                      (ERROR, [Str ''writing to influx server error:'', Str e])] \<and>
            writes cw' = writes cw @ [bp] \<and>
            buf cw' = Add (buf cw) [bp] \<and>
            loop env hostname cw (m # ms) = loop env hostname cw' ms \<and>
            (0 < capacity (buf cw) \<longrightarrow>
               fst (Elements (buf cw')) \<noteq> [] \<and> last (fst (Elements (buf cw'))) = bp) \<and>
            (capacity (buf cw) = 0 \<longrightarrow> fst (Elements (buf cw')) = [])"
proof -
  define bp where "bp = build_batch env hostname (config_db cw) (GetSnapshot m)"
  have c: "cycle env hostname (GetSnapshot m) cw =
      cw\<lparr>client := k, writes := writes cw @ [bp],
         logged := logged cw @ [(DEBUG, [Str ''preparing get metrics points'']),
                                (ERROR, [Str ''writing to influx server error:'', Str e])],
         buf := Add (buf cw) [bp]\<rparr>"
    using assms(2) bp_def assms(3) [folded bp_def] by (rule cycle_primary_failed)
  have pos: "data (Add (buf cw) [bp]) \<noteq> [] \<and> last (data (Add (buf cw) [bp])) = bp"
    if "0 < capacity (buf cw)"
    using that by (simp add: data_Add)
  have zero: "data (Add (buf cw) [bp]) = []" if "capacity (buf cw) = 0"
    using that by (simp add: data_Add)
  show ?thesis
    using c pos zero assms(1) unfolding bp_def [symmetric] by (simp add: Let_def Elements_def)
qed

theorem failed_write_is_buffered_witness:
  "select True False 0 = Some CaseTicker \<and>
   shouldSend demo_snapshot \<and>
   client_Write demo_env (client (demo_cw 1 [demo_batch 1] [Some ''down'']))
     (build_batch demo_env ''h'' ''melody'' demo_snapshot) = (Some ''down'', []) \<and>
   (0::nat) < capacity (buf (demo_cw 1 [demo_batch 1] [Some ''down''])) \<and>
   logged (cycle demo_env ''h'' demo_snapshot (demo_cw 1 [demo_batch 1] [Some ''down''])) =
     [(DEBUG, [Str ''preparing get metrics points'']),
      (ERROR, [Str ''writing to influx server error:'', Str ''down''])] \<and>
   writes (cycle demo_env ''h'' demo_snapshot (demo_cw 1 [demo_batch 1] [Some ''down''])) =
     [\<lparr>points = [(''h'', 1000, 5), (''h'', 1000, 7), (''h'', 1000, 8)],
       database = ''melody'', precision = ''s''\<rparr>] \<and>
   fst (Elements (buf (cycle demo_env ''h'' demo_snapshot (demo_cw 1 [demo_batch 1] [Some ''down''])))) =
     [\<lparr>points = [(''h'', 1000, 5), (''h'', 1000, 7), (''h'', 1000, 8)],
       database = ''melody'', precision = ''s''\<rparr>] \<and>
   client_Write demo_env (client (demo_cw 0 [demo_batch 1] [Some ''down'']))
     (build_batch demo_env ''h'' ''melody'' demo_snapshot) = (Some ''down'', []) \<and>
   capacity (buf (demo_cw 0 [demo_batch 1] [Some ''down''])) = 0 \<and>
   logged (cycle demo_env ''h'' demo_snapshot (demo_cw 0 [demo_batch 1] [Some ''down''])) =
     [(DEBUG, [Str ''preparing get metrics points'']),
      (ERROR, [Str ''writing to influx server error:'', Str ''down''])] \<and>
   writes (cycle demo_env ''h'' demo_snapshot (demo_cw 0 [demo_batch 1] [Some ''down''])) =
     [\<lparr>points = [(''h'', 1000, 5), (''h'', 1000, 7), (''h'', 1000, 8)],
       database = ''melody'', precision = ''s''\<rparr>] \<and>
   buf (cycle demo_env ''h'' demo_snapshot (demo_cw 0 [demo_batch 1] [Some ''down''])) =
     \<lparr>data = [], capacity = 0\<rparr>"
  using failed_write_is_buffered
      [where m = "\<lparr>tick_pending = True, cancelled = False, runtime_pick = 0,
                    GetSnapshot = demo_snapshot\<rparr>"
         and env = demo_env and hostname = "''h''"
         and cw = "demo_cw 1 [demo_batch 1] [Some ''down'']" and e = "''down''" and k = "[]"
         and ms = "[]"]
    failed_write_is_buffered
      [where m = "\<lparr>tick_pending = True, cancelled = False, runtime_pick = 0,
                    GetSnapshot = demo_snapshot\<rparr>"
         and env = demo_env and hostname = "''h''"
         and cw = "demo_cw 0 [demo_batch 1] [Some ''down'']" and e = "''down''" and k = "[]"
         and ms = "[]"]
  by (simp add: select_def shouldSend_def demo_snapshot_def demo_cw_def demo_env_def demo_batch_def
      Add_def NewBuffer_def Elements_def build_batch_eq Let_def)

text \<open>
  Claim C2 as stated fails for a buffer of capacity 0: the failed batch is added and
  evicted at once, and \<^verbatim>\<open>Elements()\<close> returns nothing.
\<close>

theorem failed_write_not_buffered_at_capacity_0:
  "shouldSend demo_snapshot \<and>
   fst (client_Write demo_env (client (demo_cw 0 [] [Some ''down'']))
         (build_batch demo_env ''h'' (config_db (demo_cw 0 [] [Some ''down''])) demo_snapshot)) =
     Some ''down'' \<and>
   fst (Elements (buf (cycle demo_env ''h'' demo_snapshot (demo_cw 0 [] [Some ''down''])))) = []"
  by (simp add: cycle_def Write_def log_def shouldSend_def demo_snapshot_def demo_cw_def
      demo_env_def Add_def NewBuffer_def Elements_def Let_def)

text \<open>
  Claim C3. A cycle makes no write exactly when the snapshot has no counters and no
  gauges, whatever histograms it has; the retry buffer and the client are then as
  before, and only the two debug lines are logged.
\<close>

theorem skip_without_counters_and_gauges:
  "(writes (cycle env hostname snapshot cw) = writes cw) =
     (length (Counters snapshot) = 0 \<and> length (Gauges snapshot) = 0) \<and>
   (length (Counters snapshot) = 0 \<and> length (Gauges snapshot) = 0 \<longrightarrow>
      buf (cycle env hostname snapshot cw) = buf cw \<and>
      client (cycle env hostname snapshot cw) = client cw \<and>
      logged (cycle env hostname snapshot cw) =
        logged cw @ [(DEBUG, [Str ''preparing get metrics points'']),
                     (DEBUG, [Str ''no metrics data to send to influx server''])])"
proof (cases "shouldSend snapshot")
  case True
  then have "writes (cycle env hostname snapshot cw) \<noteq> writes cw"
    by (simp add: writes_cycle)
  with True show ?thesis
    by (auto simp add: shouldSend_def)
next
  case False
  then show ?thesis
    by (simp add: cycle_skip) (simp add: shouldSend_def)
qed

theorem skip_without_counters_and_gauges_witness:
  "length (Counters \<lparr>Counters = [], Gauges = [], Histograms = [7, 8::nat], Time = 1000\<rparr> :: nat list) = 0 \<and>
   length (Gauges \<lparr>Counters = [] :: nat list, Gauges = [], Histograms = [7, 8::nat], Time = 1000\<rparr> :: nat list) = 0 \<and>
   writes (cycle demo_env ''h'' \<lparr>Counters = [], Gauges = [], Histograms = [7, 8], Time = 1000\<rparr>
       (demo_cw 2 [demo_batch 1] [Some ''down''])) = [] \<and>
   buf (cycle demo_env ''h'' \<lparr>Counters = [], Gauges = [], Histograms = [7, 8], Time = 1000\<rparr>
       (demo_cw 2 [demo_batch 1] [Some ''down''])) = \<lparr>data = [demo_batch 1], capacity = 2\<rparr>"
  using skip_without_counters_and_gauges
      [where snapshot = "\<lparr>Counters = [], Gauges = [], Histograms = [7, 8], Time = 1000\<rparr>"
         and env = demo_env and hostname = "''h''" and cw = "demo_cw 2 [demo_batch 1] [Some ''down'']"]
  by (simp add: demo_cw_def Add_def NewBuffer_def)

text \<open>
  Claim C6. In a cycle whose primary write succeeds, the info line that follows reports
  the number of points of the batch that was handed to \<^verbatim>\<open>Write\<close>.
\<close>

theorem sent_count_is_batch_size:
  assumes "shouldSend snapshot"
    and "fst (client_Write env (client cw) (build_batch env hostname (config_db cw) snapshot)) = None"
  shows "let cw' = cycle env hostname snapshot cw;
             written = writes cw' ! length (writes cw)
         in written = build_batch env hostname (config_db cw) snapshot \<and>
            take 2 (drop (length (logged cw)) (logged cw')) =
              [(DEBUG, [Str ''preparing get metrics points'']),
               (INFO, [Num (int (length (points written))), Str ''datapoints sent to Influx''])]"
proof -
  obtain k where
    "client_Write env (client cw) (build_batch env hostname (config_db cw) snapshot) = (None, k)"
    using assms(2)
    by (cases "client_Write env (client cw) (build_batch env hostname (config_db cw) snapshot)")
      simp
  from cycle_primary_ok [OF assms(1) this] obtain k' ls b where
    "cycle env hostname snapshot cw =
       cw\<lparr>client := k',
          writes := writes cw @ [build_batch env hostname (config_db cw) snapshot,
                                build_retryBatch (config_db cw) (fst (Elements (buf cw)))],
          logged := logged cw @
            [(DEBUG, [Str ''preparing get metrics points'']),
             (INFO, [Num (int (length (points (build_batch env hostname (config_db cw) snapshot)))),
                     Str ''datapoints sent to Influx''])] @ ls,
          buf := b\<rparr>"
    by blast
  then show ?thesis
    by (simp add: Let_def)
qed

theorem sent_count_is_batch_size_witness:
  "shouldSend demo_snapshot \<and>
   fst (client_Write demo_env (client (demo_cw 2 [] [None, None]))
     (build_batch demo_env ''h'' ''melody'' demo_snapshot)) = None \<and>
   logged (cycle demo_env ''h'' demo_snapshot (demo_cw 2 [] [None, None])) =
     [(DEBUG, [Str ''preparing get metrics points'']),
      (INFO, [Num 3, Str ''datapoints sent to Influx''])] \<and>
   length (points (writes (cycle demo_env ''h'' demo_snapshot (demo_cw 2 [] [None, None])) ! 0)) = 3"
  using sent_count_is_batch_size
      [where snapshot = demo_snapshot and env = demo_env and hostname = "''h''"
         and cw = "demo_cw 2 [] [None, None]"]
  by (simp add: cycle_def Write_def log_def shouldSend_def demo_snapshot_def demo_cw_def demo_env_def
      Add_def NewBuffer_def Elements_def build_batch_eq build_retryBatch_eq Let_def)

text \<open>The loop keeps the database name, only adds to the writes, and runs a longer input
  from where the shorter one left it.\<close>

lemma config_db_cycle: "config_db (cycle env hostname snapshot cw) = config_db cw"
  by (simp add: cycle_def log_def Write_def Let_def split: prod.splits option.splits)

lemma config_db_loop: "config_db (fst (loop env hostname cw ms)) = config_db cw"
  by (induction ms arbitrary: cw)
    (simp_all add: config_db_cycle split: option.splits chosen.splits)

lemma writes_loop: "\<exists>ws. writes (fst (loop env hostname cw ms)) = writes cw @ ws"
proof (induction ms arbitrary: cw)
  case Nil
  show ?case by simp
next
  case (Cons m ms)
  show ?case
  proof (cases "select (tick_pending m) (cancelled m) (runtime_pick m)")
    case None
    with Cons.IH [of cw] show ?thesis by simp
  next
    case (Some c)
    show ?thesis
    proof (cases c)
      case CaseDone
      with Some show ?thesis by simp
    next
      case CaseTicker
      obtain ws where "writes (fst (loop env hostname (cycle env hostname (GetSnapshot m) cw) ms)) =
          writes (cycle env hostname (GetSnapshot m) cw) @ ws"
        using Cons.IH by blast
      then have "\<exists>ws'. writes (fst (loop env hostname (cycle env hostname (GetSnapshot m) cw) ms)) =
          writes cw @ ws'"
        by (simp add: writes_cycle)
      with Some CaseTicker show ?thesis by simp
    qed
  qed
qed

lemma loop_append:
  "loop env hostname cw (ms @ ms') =
     (if snd (loop env hostname cw ms) = Waiting
      then loop env hostname (fst (loop env hostname cw ms)) ms'
      else loop env hostname cw ms)"
  by (induction ms arbitrary: cw) (simp_all split: option.splits chosen.splits)

lemma loop_cycle_at:
  assumes "snd (loop env hostname cw ms) = Waiting"
    and "select (tick_pending m) (cancelled m) (runtime_pick m) = Some CaseTicker"
    and "shouldSend (GetSnapshot m)"
  shows "writes (fst (loop env hostname cw (ms @ m # ms'))) !
           length (writes (fst (loop env hostname cw ms))) =
         build_batch env hostname (config_db cw) (GetSnapshot m)"
proof -
  define cw1 where "cw1 = fst (loop env hostname cw ms)"
  have run: "loop env hostname cw (ms @ m # ms') =
      loop env hostname (cycle env hostname (GetSnapshot m) cw1) ms'"
    using assms(1,2) by (simp add: loop_append cw1_def)
  obtain ws where "writes (fst (loop env hostname (cycle env hostname (GetSnapshot m) cw1) ms')) =
      writes (cycle env hostname (GetSnapshot m) cw1) @ ws"
    using writes_loop by blast
  then have "writes (fst (loop env hostname cw (ms @ m # ms'))) ! length (writes cw1) =
      build_batch env hostname (config_db cw1) (GetSnapshot m)"
    using assms(3) by (simp add: run writes_cycle nth_append)
  then show ?thesis
    by (simp add: cw1_def config_db_loop)
qed

text \<open>
  Claim C7. In every cycle of \<^verbatim>\<open>updateAndSendData\<close> that exports (after any earlier
  cycles, at a tick with a snapshot worth sending), the batch handed to \<^verbatim>\<open>Write\<close> first
  has the points of the counter converter, then those of the gauge converter, then
  those of the histogram converter, each called with the hostname that \<^verbatim>\<open>os.Hostname\<close>
  returned and with \<^verbatim>\<open>time.Unix(0, snapshot.Time)\<close>; its database is the configured one
  and its precision is \<^verbatim>\<open>"s"\<close>.
\<close>

theorem batch_of_every_cycle:
  assumes "snd (updateAndSendData env (h, err) cw ms) = Waiting"
    and "select (tick_pending m) (cancelled m) (runtime_pick m) = Some CaseTicker"
    and "shouldSend (GetSnapshot m)"
  shows "writes (fst (updateAndSendData env (h, err) cw (ms @ m # ms'))) !
           length (writes (fst (updateAndSendData env (h, err) cw ms))) =
         \<lparr>points =
            counter_Points env h (time_Unix env 0 (Time (GetSnapshot m))) (Counters (GetSnapshot m)) @
            gauge_Points env h (time_Unix env 0 (Time (GetSnapshot m))) (Gauges (GetSnapshot m)) @
            histogram_Points env h (time_Unix env 0 (Time (GetSnapshot m)))
              (Histograms (GetSnapshot m)),
          database = config_db cw, precision = ''s''\<rparr>"
proof -
  define cw0 where "cw0 =
    (case err of
       Some e \<Rightarrow> log ERROR [Str ''influx client get hostname err:'', Str e]
                  (cw\<lparr>hostname_lookups := Suc (hostname_lookups cw)\<rparr>)
     | None \<Rightarrow> cw\<lparr>hostname_lookups := Suc (hostname_lookups cw)\<rparr>)"
  have run: "updateAndSendData env (h, err) cw xs = loop env h cw0 xs" for xs
    by (simp add: updateAndSendData_def cw0_def Let_def)
  have db: "config_db cw0 = config_db cw"
    by (simp add: cw0_def log_def split: option.splits)
  from assms(1) have "snd (loop env h cw0 ms) = Waiting"
    by (simp add: run)
  from loop_cycle_at [OF this assms(2,3), of ms'] show ?thesis
    by (simp add: run db build_batch_eq)
qed

theorem batch_of_every_cycle_witness:
  "snd (updateAndSendData demo_env (''vm'', None) (demo_cw 2 [] [Some ''down''])
         [demo_moment True False 0]) = Waiting \<and>
   select True False 0 = Some CaseTicker \<and>
   shouldSend \<lparr>Counters = [1::nat], Gauges = [2::nat], Histograms = [3::nat], Time = 2000\<rparr> \<and>
   length (writes (fst (updateAndSendData demo_env (''vm'', None) (demo_cw 2 [] [Some ''down''])
         [demo_moment True False 0]))) = 1 \<and>
   writes (fst (updateAndSendData demo_env (''vm'', None) (demo_cw 2 [] [Some ''down''])
         [demo_moment True False 0,
          \<lparr>tick_pending = True, cancelled = False, runtime_pick = 0,
            GetSnapshot = \<lparr>Counters = [1], Gauges = [2], Histograms = [3], Time = 2000\<rparr>\<rparr>])) ! 1 =
     \<lparr>points = [(''vm'', 2000, 1), (''vm'', 2000, 2), (''vm'', 2000, 3)],
      database = ''melody'', precision = ''s''\<rparr>"
  using batch_of_every_cycle
      [where env = demo_env and h = "''vm''" and err = None
         and cw = "demo_cw 2 [] [Some ''down'']" and ms = "[demo_moment True False 0]"
         and m = "\<lparr>tick_pending = True, cancelled = False, runtime_pick = 0,
                    GetSnapshot = \<lparr>Counters = [1], Gauges = [2], Histograms = [3],
                                    Time = 2000\<rparr>\<rparr>"
         and ms' = "[]"]
  by (simp add: updateAndSendData_def demo_moment_def select_def cycle_def Write_def log_def
      shouldSend_def build_batch_eq demo_snapshot_def demo_cw_def demo_env_def Add_def
      NewBuffer_def Elements_def Let_def)

text \<open>
  Claim C10. After a successful primary write the retry write is always made: the
  cycle hands two batches to \<^verbatim>\<open>Write\<close>. When the retry buffer is empty, the second one
  has no points, and whether that write succeeds or fails, the buffer is as before.
\<close>

theorem empty_retry_write:
  assumes "shouldSend snapshot"
    and "client_Write env (client cw) (build_batch env hostname (config_db cw) snapshot) = (None, k)"
  shows "length (writes (cycle env hostname snapshot cw)) = length (writes cw) + 2 \<and>
         (data (buf cw) = [] \<longrightarrow>
            writes (cycle env hostname snapshot cw) =
              writes cw @ [build_batch env hostname (config_db cw) snapshot,
                           \<lparr>points = [], database = config_db cw, precision = ''s''\<rparr>] \<and>
            buf (cycle env hostname snapshot cw) = buf cw)"
proof -
  define bp where "bp = build_batch env hostname (config_db cw) snapshot"
  define rb where "rb = build_retryBatch (config_db cw) (fst (Elements (buf cw)))"
  obtain err k' where w2: "client_Write env k rb = (err, k')"
    by (cases "client_Write env k rb")
  have two: "length (writes (cycle env hostname snapshot cw)) = length (writes cw) + 2"
    using assms by (simp add: writes_cycle)
  have "writes (cycle env hostname snapshot cw) =
          writes cw @ [bp, \<lparr>points = [], database = config_db cw, precision = ''s''\<rparr>] \<and>
        buf (cycle env hostname snapshot cw) = buf cw"
    if empty: "data (buf cw) = []"
  proof -
    have rb_eq: "rb = \<lparr>points = [], database = config_db cw, precision = ''s''\<rparr>"
      using empty by (simp add: rb_def build_retryBatch_eq Elements_def)
    have b: "fst (Elements (buf cw)) = []" "snd (Elements (buf cw)) = buf cw"
      "Add (buf cw) [] = buf cw"
      using empty by (simp_all add: Elements_def Add_def)
    show ?thesis
    proof (cases err)
      case None
      from cycle_retry_ok [OF assms(1) bp_def assms(2) [folded bp_def] rb_def w2 [unfolded None]]
      show ?thesis
        unfolding rb_eq by (simp add: b)
    next
      case (Some e)
      from cycle_retry_failed [OF assms(1) bp_def assms(2) [folded bp_def] rb_def w2 [unfolded Some]]
      show ?thesis
        unfolding rb_eq by (simp add: b)
    qed
  qed
  with two show ?thesis
    unfolding bp_def by blast
qed

theorem empty_retry_write_witness:
  "shouldSend demo_snapshot \<and>
   client_Write demo_env (client (demo_cw 2 [] [None, Some ''down'']))
     (build_batch demo_env ''h'' ''melody'' demo_snapshot) = (None, [Some ''down'']) \<and>
   data (buf (demo_cw 2 [] [None, Some ''down''])) = [] \<and>
   writes (cycle demo_env ''h'' demo_snapshot (demo_cw 2 [] [None, Some ''down''])) =
     [\<lparr>points = [(''h'', 1000, 5), (''h'', 1000, 7), (''h'', 1000, 8)],
       database = ''melody'', precision = ''s''\<rparr>,
      \<lparr>points = [], database = ''melody'', precision = ''s''\<rparr>] \<and>
   buf (cycle demo_env ''h'' demo_snapshot (demo_cw 2 [] [None, Some ''down''])) =
     \<lparr>data = [], capacity = 2\<rparr>"
  using empty_retry_write
      [where snapshot = demo_snapshot and env = demo_env and hostname = "''h''"
         and cw = "demo_cw 2 [] [None, Some ''down'']" and k = "[Some ''down'']"]
  by (simp add: shouldSend_def demo_snapshot_def demo_cw_def demo_env_def
      Add_def NewBuffer_def build_batch_eq Let_def)

section \<open>The loop and cancellation\<close>

text \<open>
  Claim C5, amended. At a \<^verbatim>\<open>select\<close> where the context is cancelled, the loop returns
  without any further work, its state untouched, if no tick is pending or if the
  \<^verbatim>\<open>select\<close> picks the cancellation.
\<close>

theorem cancellation_ends_loop:
  assumes "cancelled m"
    and "\<not> tick_pending m \<or>
         select (tick_pending m) (cancelled m) (runtime_pick m) = Some CaseDone"
  shows "loop env hostname cw (m # ms) = (cw, Returned)"
proof -
  have "select (tick_pending m) (cancelled m) (runtime_pick m) = Some CaseDone"
    using assms by (auto simp add: select_def)
  then show ?thesis by simp
qed

theorem cancellation_ends_loop_witness:
  "cancelled (demo_moment True True 1) \<and>
   select (tick_pending (demo_moment True True 1)) (cancelled (demo_moment True True 1))
     (runtime_pick (demo_moment True True 1)) = Some CaseDone \<and>
   loop demo_env ''h'' (demo_cw 2 [] []) [demo_moment True True 1, demo_moment True False 0] =
     (demo_cw 2 [] [], Returned) \<and>
   cancelled (demo_moment False True 0) \<and> \<not> tick_pending (demo_moment False True 0) \<and>
   loop demo_env ''h'' (demo_cw 2 [] []) [demo_moment False True 0, demo_moment True False 0] =
     (demo_cw 2 [] [], Returned)"
  using cancellation_ends_loop
      [where m = "demo_moment True True 1" and env = demo_env and hostname = "''h''"
         and cw = "demo_cw 2 [] []" and ms = "[demo_moment True False 0]"]
    cancellation_ends_loop
      [where m = "demo_moment False True 0" and env = demo_env and hostname = "''h''"
         and cw = "demo_cw 2 [] []" and ms = "[demo_moment True False 0]"]
  by (simp add: demo_moment_def select_def)

text \<open>
  Claim C5 as stated fails when a tick and the cancellation are pending together: the
  \<^verbatim>\<open>select\<close> may pick the tick, and the loop then runs one more cycle, with its
  writes, although the context is cancelled.
\<close>

theorem export_after_cancellation:
  "cancelled (demo_moment True True 0) \<and>
   select (tick_pending (demo_moment True True 0)) (cancelled (demo_moment True True 0))
     (runtime_pick (demo_moment True True 0)) = Some CaseTicker \<and>
   snd (loop demo_env ''h'' (demo_cw 2 [] []) [demo_moment True True 0]) = Waiting \<and>
   writes (fst (loop demo_env ''h'' (demo_cw 2 [] []) [demo_moment True True 0])) =
     [\<lparr>points = [(''h'', 1000, 5), (''h'', 1000, 7), (''h'', 1000, 8)],
       database = ''melody'', precision = ''s''\<rparr>,
      \<lparr>points = [], database = ''melody'', precision = ''s''\<rparr>]"
  by (simp add: demo_moment_def select_def writes_cycle shouldSend_def demo_snapshot_def
      demo_cw_def demo_env_def build_batch_eq build_retryBatch_eq Add_def NewBuffer_def Elements_def)

section \<open>The hostname\<close>

lemma cycle_log_prefix:
  "cycle env hostname snapshot (cw\<lparr>logged := l @ logged cw\<rparr>) =
     (cycle env hostname snapshot cw)\<lparr>logged := l @ logged (cycle env hostname snapshot cw)\<rparr>"
  by (simp add: cycle_def log_def Write_def Let_def split: prod.splits option.splits)

lemma hostname_lookups_cycle:
  "hostname_lookups (cycle env hostname snapshot cw) = hostname_lookups cw"
  by (simp add: cycle_def log_def Write_def Let_def split: prod.splits option.splits)

lemma hostname_lookups_loop:
  "hostname_lookups (fst (loop env hostname cw ms)) = hostname_lookups cw"
  by (induction ms arbitrary: cw)
    (simp_all add: hostname_lookups_cycle split: option.splits chosen.splits)

lemma loop_log_prefix:
  "loop env hostname (cw\<lparr>logged := l @ logged cw\<rparr>) ms =
     (case loop env hostname cw ms of (cw', out) \<Rightarrow> (cw'\<lparr>logged := l @ logged cw'\<rparr>, out))"
proof (induction ms arbitrary: cw)
  case Nil
  show ?case by simp
next
  case (Cons m ms)
  show ?case
  proof (cases "select (tick_pending m) (cancelled m) (runtime_pick m)")
    case None
    then show ?thesis by (simp add: Cons.IH)
  next
    case (Some c)
    then show ?thesis
      by (cases c) (simp_all add: cycle_log_prefix Cons.IH)
  qed
qed

text \<open>
  Claim C8. \<^verbatim>\<open>os.Hostname\<close> is called once, before the loop, however many cycles
  run. When it answers with a name (empty, in Go) and an error, the error is logged and
  the loop runs as it does for that name without an error: the same outcome and the
  same state, but for the one error line at the start of the log.
\<close>

theorem hostname_resolved_once:
  "hostname_lookups (fst (updateAndSendData env r cw ms)) = Suc (hostname_lookups cw) \<and>
   updateAndSendData env (h, Some e) cw ms =
     (case updateAndSendData env (h, None) cw ms of
        (cw', out) \<Rightarrow>
          (cw'\<lparr>logged := logged cw @ [(ERROR, [Str ''influx client get hostname err:'', Str e])] @
                           drop (length (logged cw)) (logged cw')\<rparr>, out))"
proof -
  define cw0 where "cw0 = cw\<lparr>hostname_lookups := Suc (hostname_lookups cw), logged := []\<rparr>"
  obtain c out where run: "loop env h cw0 ms = (c, out)"
    by (cases "loop env h cw0 ms")
  have ok: "updateAndSendData env (h, None) cw ms = (c\<lparr>logged := logged cw @ logged c\<rparr>, out)"
    using loop_log_prefix [where env = env and hostname = h and cw = cw0 and l = "logged cw" and ms = ms] run
    by (simp add: updateAndSendData_def cw0_def)
  have failed: "updateAndSendData env (h, Some e) cw ms =
      (c\<lparr>logged := (logged cw @ [(ERROR, [Str ''influx client get hostname err:'', Str e])]) @
          logged c\<rparr>, out)"
    using loop_log_prefix [where env = env and hostname = h and cw = cw0 and ms = ms
        and l = "logged cw @ [(ERROR, [Str ''influx client get hostname err:'', Str e])]"] run
    by (simp add: updateAndSendData_def cw0_def log_def)
  have "hostname_lookups (fst (updateAndSendData env r cw ms)) = Suc (hostname_lookups cw)"
    by (cases r)
      (simp add: updateAndSendData_def hostname_lookups_loop log_def Let_def split: option.splits)
  then show ?thesis
    by (simp add: ok failed)
qed

theorem hostname_resolved_once_witness:
  "updateAndSendData demo_env ('''', Some ''no hostname'') (demo_cw 2 [] [Some ''down''])
     [\<lparr>tick_pending = True, cancelled = False, runtime_pick = 0, GetSnapshot = demo_snapshot\<rparr>,
      \<lparr>tick_pending = True, cancelled = False, runtime_pick = 0,
        GetSnapshot = \<lparr>Counters = [], Gauges = [], Histograms = [], Time = 2000\<rparr>\<rparr>] =
   (\<lparr>client = [], config_db = ''melody'',
      buf = \<lparr>data = [\<lparr>points = [('''', 1000, 5), ('''', 1000, 7), ('''', 1000, 8)],
                       database = ''melody'', precision = ''s''\<rparr>], capacity = 2\<rparr>,
      logged = [(ERROR, [Str ''influx client get hostname err:'', Str ''no hostname'']),
                (DEBUG, [Str ''preparing get metrics points'']),
                (ERROR, [Str ''writing to influx server error:'', Str ''down'']),
                (DEBUG, [Str ''preparing get metrics points'']),
                (DEBUG, [Str ''no metrics data to send to influx server''])],
      writes = [\<lparr>points = [('''', 1000, 5), ('''', 1000, 7), ('''', 1000, 8)],
                 database = ''melody'', precision = ''s''\<rparr>],
      hostname_lookups = 1\<rparr>, Waiting)"
  using hostname_resolved_once
      [where env = demo_env and h = "''''" and e = "''no hostname''"
         and cw = "demo_cw 2 [] [Some ''down'']" and r = "('''', Some ''no hostname'')"
         and ms = "[\<lparr>tick_pending = True, cancelled = False, runtime_pick = 0,
                      GetSnapshot = demo_snapshot\<rparr>,
                    \<lparr>tick_pending = True, cancelled = False, runtime_pick = 0,
                      GetSnapshot = \<lparr>Counters = [], Gauges = [], Histograms = [],
                                      Time = 2000\<rparr>\<rparr>]"]
  by (simp add: updateAndSendData_def select_def cycle_def Write_def log_def shouldSend_def
      build_batch_eq demo_snapshot_def demo_cw_def demo_env_def Add_def NewBuffer_def Let_def)

section \<open>Registration succeeds or fails\<close>

lemma loops_of_append: "loops_of (xs @ ys) = loops_of xs @ loops_of ys"
  by (induction xs rule: loops_of.induct) simp_all

text \<open>The loop that \<^verbatim>\<open>Register\<close> starts has its retry buffer within capacity, and
  keeps it so (\<open>within_capacity_loop\<close>).\<close>

lemma within_capacity_Register:
  "cw \<in> set (loops_of (started (Register st))) \<Longrightarrow> within_capacity (buf cw)"
  by (auto simp add: Register_def Let_def loops_of_append within_capacity_NewBuffer
      split: option.splits sum.splits prod.splits if_splits)

text \<open>
  Claim C9, amended. \<^verbatim>\<open>Register\<close> returns an error exactly when there is no
  configuration, the client cannot be made, or the ping fails, and then it starts no
  loop; the ping is made at most once; otherwise, when the configured tick interval is
  positive, it starts one loop and returns \<^verbatim>\<open>nil\<close>.
\<close>

theorem Register_outcome:
  "((\<exists>e. result (Register st :: ('p, 'k) registration) = ReturnsError e) = startup_fails st) \<and>
   (startup_fails st \<longrightarrow> loops_of (started (Register st :: ('p, 'k) registration)) = []) \<and>
   (\<not> startup_fails st \<longrightarrow> ticker_ok st \<longrightarrow>
      result (Register st :: ('p, 'k) registration) = ReturnsNil \<and>
      length (loops_of (started (Register st :: ('p, 'k) registration))) = 1) \<and>
   pings (Register st :: ('p, 'k) registration) \<le> 1"
  by (simp add: Register_def startup_fails_def ticker_ok_def Let_def loops_of_append
      split: option.splits sum.splits prod.splits)

theorem Register_outcome_witness:
  "startup_fails (demo_startup (Some (demo_config 10)) (Inr []) (Some ''timeout'')) \<and>
   (Register (demo_startup (Some (demo_config 10)) (Inr []) (Some ''timeout''))
      :: (demo_point, string option list) registration) =
     \<lparr>result = ReturnsError ''timeout'',
      reg_logged = [(ERROR, [Str ''unable to ping influx server,'', Str ''timeout''])],
      pings = 1, started = []\<rparr> \<and>
   \<not> startup_fails (demo_startup (Some (demo_config 10)) (Inr []) None) \<and>
   ticker_ok (demo_startup (Some (demo_config 10)) (Inr []) None) \<and>
   result (Register (demo_startup (Some (demo_config 10)) (Inr []) None)
      :: (demo_point, string option list) registration) = ReturnsNil \<and>
   loops_of (started (Register (demo_startup (Some (demo_config 10)) (Inr []) None)
      :: (demo_point, string option list) registration)) = [demo_cw 2 [] []]"
  using Register_outcome
      [where st = "demo_startup (Some (demo_config 10)) (Inr []) (Some ''timeout'')",
       where ?'p = demo_point]
    Register_outcome
      [where st = "demo_startup (Some (demo_config 10)) (Inr []) None", where ?'p = demo_point]
  by (simp add: Register_def startup_fails_def ticker_ok_def demo_startup_def demo_config_def
      demo_cw_def NewBuffer_def Add_def)

text \<open>
  Claim C9 as stated fails for a tick interval of 0: nothing of the startup fails, but
  \<^verbatim>\<open>time.NewTicker\<close> panics, so \<^verbatim>\<open>Register\<close> neither returns \<^verbatim>\<open>nil\<close> nor starts
  the loop.
\<close>

theorem Register_panics_on_ttl_0:
  "\<not> startup_fails (demo_startup (Some (demo_config 0)) (Inr []) None) \<and>
   (Register (demo_startup (Some (demo_config 0)) (Inr []) None)
      :: (demo_point, string option list) registration) =
     \<lparr>result = Panics,
      reg_logged = [(DEBUG, [Str ''ping success to influx server with duration:'', Num 5,
                             Str '' and message:'', Str ''pong''])],
      pings = 1, started = []\<rparr>"
  by (simp add: Register_def startup_fails_def demo_startup_def demo_config_def)

end
